theory Spec2Isabelle
  imports Main
begin

section \<open>The native storage engine, as seen by the pooling layer\<close>

text \<open>
  The module \<^verbatim>\<open>chromadb/db/impl/sqlite_pool.py\<close> wraps connections of the sqlite3
  driver. The driver is outside the repository; the pooling layer only opens connections,
  sends statements and closes connections. The engine is therefore modelled as a record
  that remembers which connections were opened, which of them are still physically open,
  and the statements each of them received, in order. A Python \<^verbatim>\<open>Connection\<close> object is
  identified by a natural number; every construction yields a number that was never used
  before (object identity). The engine is taken to accept every statement: failures of
  the driver are propagated unchanged by the source and are not the subject of this
  development. The arguments \<^verbatim>\<open>db_file\<close> and \<^verbatim>\<open>is_uri\<close> are handed to the driver
  untouched and influence no decision of the pooling layer; they are left out.
\<close>

type_synonym handle = nat
type_synonym thread = nat

datatype error = RuntimeError | AttributeError

record world =
  next_conn :: nat
  open_conns :: "handle set"
  executed :: "handle \<Rightarrow> string list"

definition fresh_world :: world where
  "fresh_world = \<lparr>next_conn = 0, open_conns = {}, executed = (\<lambda>_. [])\<rparr>"

text \<open>Python's \<^verbatim>\<open>str\<close> of a non-negative integer, as used by the f-string.\<close>

definition digit_char :: "nat \<Rightarrow> char" where
  "digit_char d = ''0123456789'' ! d"

fun str_nat :: "nat \<Rightarrow> string" where
  "str_nat n = (if n < 10 then [digit_char n] else str_nat (n div 10) @ [digit_char (n mod 10)])"

declare str_nat.simps [simp del]

text \<open>\<^verbatim>\<open>sqlite3.connect(...)\<close>: a new native connection, open, with an empty statement log.\<close>

definition sqlite3_connect :: "world \<Rightarrow> handle \<times> world" where
  "sqlite3_connect w =
     (next_conn w,
      w\<lparr>next_conn := Suc (next_conn w),
        open_conns := insert (next_conn w) (open_conns w),
        executed := (executed w)(next_conn w := [])\<rparr>)"

text \<open>\<^verbatim>\<open>self._conn.execute(sql)\<close>: the statement is appended to the connection's log.\<close>

definition conn_execute :: "handle \<Rightarrow> string \<Rightarrow> world \<Rightarrow> world" where
  "conn_execute h sql w = w\<lparr>executed := (executed w)(h := executed w h @ [sql])\<rparr>"

definition mmap_size :: nat where
  "mmap_size = 2048 * 1024 * 1024"

text \<open>\<^verbatim>\<open>Connection.__init__\<close>: open the native connection, then the statements of lines
  25 to 34 of the source, one after the other.\<close>

definition Connection_init :: "world \<Rightarrow> handle \<times> world" where
  "Connection_init w =
     (let (h, w0) = sqlite3_connect w;
          w1 = conn_execute h ''PRAGMA cache_size = 2000000;'' w0;
          w2 = conn_execute h ''PRAGMA temp_store = MEMORY;'' w1;
          w3 = conn_execute h ''PRAGMA journal_mode = OFF;'' w2;
          w4 = conn_execute h (''PRAGMA mmap_size = '' @ str_nat mmap_size @ '';'') w3;
          w5 = conn_execute h ''PRAGMA synchronous = OFF;'' w4;
          w6 = conn_execute h ''PRAGMA optimize;'' w5;
          w7 = conn_execute h ''ANALYZE embedding_metadata;'' w6;
          w8 = conn_execute h ''ANALYZE embeddings;'' w7
      in (h, w8))"

text \<open>\<^verbatim>\<open>Connection.close_actual\<close>: the native connection is closed. Closing a native
  connection that is already closed is accepted by the driver and changes nothing.\<close>

definition close_actual :: "handle \<Rightarrow> world \<Rightarrow> world" where
  "close_actual h w = w\<lparr>open_conns := open_conns w - {h}\<rparr>"

text \<open>\<^verbatim>\<open>for conn in conns: conn.close_actual()\<close> over a Python set. The iteration order
  of a set is not fixed by the language; the model visits the members in increasing
  order, and \<open>close_each_set\<close> below shows that the order does not matter.\<close>

definition close_each :: "handle list \<Rightarrow> world \<Rightarrow> world" where
  "close_each hs w = fold close_actual hs w"

definition close_all :: "handle set \<Rightarrow> world \<Rightarrow> world" where
  "close_all S w = close_each (sorted_list_of_set S) w"

section \<open>Outcomes of a call\<close>

text \<open>
  A call of a pool method either returns a value, raises an exception, or blocks (the
  calling thread waits on a lock, an event or the queue). A call is modelled as one
  atomic transition of the shared state: \<open>Returned v s\<close> and \<open>Raised e s\<close> carry the
  state the call leaves behind, and \<open>Blocked\<close> leaves the state as it was, the call
  not having taken place yet. An execution of several threads is a list of calls in the
  order in which they take effect.
\<close>

datatype ('v, 's) outcome = Returned 'v 's | Raised error 's | Blocked

fun state_after :: "('v, 's) outcome \<Rightarrow> 's \<Rightarrow> 's" where
  "state_after (Returned v s') s = s'"
| "state_after (Raised e s') s = s'"
| "state_after Blocked s = s"



datatype call = Connect thread | ReturnToPool thread handle | Close thread

section \<open>threading.RLock\<close>

text \<open>
  The re-entrant lock of the standard library: an owner and a recursion level.
  \<^verbatim>\<open>acquire()\<close> blocks while another thread owns the lock; \<^verbatim>\<open>release()\<close> by a thread
  that does not own the lock raises \<^verbatim>\<open>RuntimeError\<close>.
\<close>

record rlock =
  rl_owner :: "thread option"
  rl_count :: nat

definition rlock_new :: rlock where
  "rlock_new = \<lparr>rl_owner = None, rl_count = 0\<rparr>"

definition rlock_acquire :: "thread \<Rightarrow> rlock \<Rightarrow> rlock option" where
  "rlock_acquire t l =
     (if rl_owner l = Some t then Some (l\<lparr>rl_count := rl_count l + 1\<rparr>)
      else if rl_owner l = None then Some \<lparr>rl_owner = Some t, rl_count = 1\<rparr>
      else None)"

definition rlock_release :: "thread \<Rightarrow> rlock \<Rightarrow> error + rlock" where
  "rlock_release t l =
     (if rl_owner l \<noteq> Some t then Inl RuntimeError
      else if rl_count l - 1 = 0 then Inr \<lparr>rl_owner = None, rl_count = 0\<rparr>
      else Inr (l\<lparr>rl_count := rl_count l - 1\<rparr>))"

section \<open>LockPool\<close>

text \<open>
  \<open>lp_connection\<close> is the \<^verbatim>\<open>threading.local\<close> object: for each thread, the value of
  its attribute \<^verbatim>\<open>conn\<close>; \<open>None\<close> stands for a missing attribute as well as for the value
  \<^verbatim>\<open>None\<close>, which the test in \<^verbatim>\<open>connect\<close> treats alike.
\<close>

record LockPool =
  lp_connections :: "handle set"
  lp_lock :: rlock
  lp_connection :: "thread \<Rightarrow> handle option"

definition LockPool_init :: LockPool where
  "LockPool_init = \<lparr>lp_connections = {}, lp_lock = rlock_new, lp_connection = (\<lambda>_. None)\<rparr>"

definition LockPool_connect ::
  "thread \<Rightarrow> LockPool \<times> world \<Rightarrow> (handle, LockPool \<times> world) outcome" where
  "LockPool_connect t s =
     (case s of (p, w) \<Rightarrow>
        (case rlock_acquire t (lp_lock p) of
           None \<Rightarrow> Blocked
         | Some l \<Rightarrow>
             (case lp_connection p t of
                Some c \<Rightarrow> Returned c (p\<lparr>lp_lock := l\<rparr>, w)
              | None \<Rightarrow>
                  (case Connection_init w of (new_connection, w') \<Rightarrow>
                     Returned new_connection
                       (p\<lparr>lp_lock := l,
                          lp_connection := (lp_connection p)(t := Some new_connection),
                          lp_connections := insert new_connection (lp_connections p)\<rparr>,
                        w')))))"

text \<open>\<^verbatim>\<open>try: self._lock.release()  except RuntimeError: pass\<close>: only \<^verbatim>\<open>RuntimeError\<close>
  is caught, any other exception would leave the method.\<close>

definition release_ignoring_RuntimeError ::
  "thread \<Rightarrow> LockPool \<times> world \<Rightarrow> (unit, LockPool \<times> world) outcome" where
  "release_ignoring_RuntimeError t s =
     (case s of (p, w) \<Rightarrow>
        (case rlock_release t (lp_lock p) of
           Inr l \<Rightarrow> Returned () (p\<lparr>lp_lock := l\<rparr>, w)
         | Inl RuntimeError \<Rightarrow> Returned () (p, w)
         | Inl e \<Rightarrow> Raised e (p, w)))"

definition LockPool_return_to_pool ::
  "thread \<Rightarrow> handle \<Rightarrow> LockPool \<times> world \<Rightarrow> (unit, LockPool \<times> world) outcome" where
  "LockPool_return_to_pool t conn s = release_ignoring_RuntimeError t s"

definition LockPool_close ::
  "thread \<Rightarrow> LockPool \<times> world \<Rightarrow> (unit, LockPool \<times> world) outcome" where
  "LockPool_close t s =
     (case s of (p, w) \<Rightarrow>
        release_ignoring_RuntimeError t
          (p\<lparr>lp_connections := {}, lp_connection := (\<lambda>_. None)\<rparr>,
           close_all (lp_connections p) w))"

fun lp_call :: "call \<Rightarrow> LockPool \<times> world \<Rightarrow> LockPool \<times> world" where
  "lp_call (Connect t) s = state_after (LockPool_connect t s) s"
| "lp_call (ReturnToPool t c) s = state_after (LockPool_return_to_pool t c s) s"
| "lp_call (Close t) s = state_after (LockPool_close t s) s"

definition lp_run :: "call list \<Rightarrow> LockPool \<times> world \<Rightarrow> LockPool \<times> world" where
  "lp_run cs s = fold lp_call cs s"

section \<open>PerThreadPool\<close>

text \<open>
  The plain lock \<^verbatim>\<open>self._lock\<close> is taken and released inside one call
  (\<^verbatim>\<open>with self._lock\<close>), so it is free whenever a call starts; it is not part of the
  state.
\<close>

record PerThreadPool =
  pt_connections :: "handle set"
  pt_connection :: "thread \<Rightarrow> handle option"

definition PerThreadPool_init :: PerThreadPool where
  "PerThreadPool_init = \<lparr>pt_connections = {}, pt_connection = (\<lambda>_. None)\<rparr>"

definition PerThreadPool_connect ::
  "thread \<Rightarrow> PerThreadPool \<times> world \<Rightarrow> (handle, PerThreadPool \<times> world) outcome" where
  "PerThreadPool_connect t s =
     (case s of (p, w) \<Rightarrow>
        (case pt_connection p t of
           Some c \<Rightarrow> Returned c (p, w)
         | None \<Rightarrow>
             (case Connection_init w of (new_connection, w') \<Rightarrow>
                Returned new_connection
                  (p\<lparr>pt_connection := (pt_connection p)(t := Some new_connection),
                     pt_connections := insert new_connection (pt_connections p)\<rparr>,
                   w'))))"

definition PerThreadPool_close ::
  "PerThreadPool \<times> world \<Rightarrow> (unit, PerThreadPool \<times> world) outcome" where
  "PerThreadPool_close s =
     (case s of (p, w) \<Rightarrow>
        Returned ()
          (p\<lparr>pt_connections := {}, pt_connection := (\<lambda>_. None)\<rparr>,
           close_all (pt_connections p) w))"

definition PerThreadPool_return_to_pool ::
  "handle \<Rightarrow> PerThreadPool \<times> world \<Rightarrow> (unit, PerThreadPool \<times> world) outcome" where
  "PerThreadPool_return_to_pool conn s = Returned () s"

text \<open>An execution, together with the handles that \<^verbatim>\<open>connect\<close> gave to each thread.\<close>

fun pt_call ::
  "call \<Rightarrow> (PerThreadPool \<times> world) \<times> (thread \<times> handle) list
        \<Rightarrow> (PerThreadPool \<times> world) \<times> (thread \<times> handle) list" where
  "pt_call (Connect t) (s, given) =
     (case PerThreadPool_connect t s of
        Returned c s' \<Rightarrow> (s', given @ [(t, c)])
      | Raised e s' \<Rightarrow> (s', given)
      | Blocked \<Rightarrow> (s, given))"
| "pt_call (ReturnToPool t c) (s, given) =
     (state_after (PerThreadPool_return_to_pool c s) s, given)"
| "pt_call (Close t) (s, given) = (state_after (PerThreadPool_close s) s, given)"

definition pt_run ::
  "call list \<Rightarrow> (PerThreadPool \<times> world) \<times> (thread \<times> handle) list
        \<Rightarrow> (PerThreadPool \<times> world) \<times> (thread \<times> handle) list" where
  "pt_run cs s = fold pt_call cs s"

fun is_Close :: "call \<Rightarrow> bool" where
  "is_Close (Close t) = True"
| "is_Close (Connect t) = False"
| "is_Close (ReturnToPool t c) = False"

section \<open>queue.Queue\<close>

text \<open>
  The bounded FIFO queue of the standard library. An item is a Python value that is
  either a connection or \<^verbatim>\<open>None\<close>. \<^verbatim>\<open>put\<close> blocks while the queue is full, which it
  can only be for a positive \<^verbatim>\<open>maxsize\<close>; \<^verbatim>\<open>get\<close> blocks while the queue is empty.
\<close>

record queue =
  q_items :: "handle option list"
  q_maxsize :: int

definition queue_new :: "int \<Rightarrow> queue" where
  "queue_new maxsize = \<lparr>q_items = [], q_maxsize = maxsize\<rparr>"

definition queue_full :: "queue \<Rightarrow> bool" where
  "queue_full q = (0 < q_maxsize q \<and> q_maxsize q \<le> int (length (q_items q)))"

definition queue_empty :: "queue \<Rightarrow> bool" where
  "queue_empty q = (q_items q = [])"

definition queue_put :: "handle option \<Rightarrow> queue \<Rightarrow> queue option" where
  "queue_put x q = (if queue_full q then None else Some (q\<lparr>q_items := q_items q @ [x]\<rparr>))"


section \<open>ReusableConnectionPool\<close>

record ReusableConnectionPool =
  available_connections :: queue
  all_connections :: "handle set"
  max_connections :: int
  initialized :: bool

definition create_new_connection ::
  "ReusableConnectionPool \<times> world \<Rightarrow> handle \<times> (ReusableConnectionPool \<times> world)" where
  "create_new_connection s =
     (case s of (p, w) \<Rightarrow>
        (case Connection_init w of (new_connection, w') \<Rightarrow>
           (new_connection,
            (p\<lparr>all_connections := insert new_connection (all_connections p)\<rparr>, w'))))"

text \<open>The loop \<^verbatim>\<open>for _ in range(max_connections)\<close> of the constructor.\<close>

fun prefill ::
  "nat \<Rightarrow> ReusableConnectionPool \<times> world
       \<Rightarrow> (unit, ReusableConnectionPool \<times> world) outcome" where
  "prefill 0 s = Returned () s"
| "prefill (Suc n) s =
     (case create_new_connection s of (c, (p, w)) \<Rightarrow>
        (case queue_put (Some c) (available_connections p) of
           None \<Rightarrow> Blocked
         | Some q \<Rightarrow> prefill n (p\<lparr>available_connections := q\<rparr>, w)))"

definition ReusableConnectionPool_new :: "int \<Rightarrow> ReusableConnectionPool" where
  "ReusableConnectionPool_new k =
     \<lparr>available_connections = queue_new k, all_connections = {},
      max_connections = k, initialized = False\<rparr>"

definition ReusableConnectionPool_init ::
  "int \<Rightarrow> world \<Rightarrow> (unit, ReusableConnectionPool \<times> world) outcome" where
  "ReusableConnectionPool_init k w =
     (case prefill (nat k) (ReusableConnectionPool_new k, w) of
        Returned u (p, w') \<Rightarrow> Returned () (p\<lparr>initialized := True\<rparr>, w')
      | Raised e s \<Rightarrow> Raised e s
      | Blocked \<Rightarrow> Blocked)"




definition ReusableConnectionPool_return_to_pool ::
  "handle \<Rightarrow> ReusableConnectionPool \<times> world
     \<Rightarrow> (unit, ReusableConnectionPool \<times> world) outcome" where
  "ReusableConnectionPool_return_to_pool conn s =
     (case s of (p, w) \<Rightarrow>
        if conn \<in> all_connections p then
          (case queue_put (Some conn) (available_connections p) of
             None \<Rightarrow> Blocked
           | Some q \<Rightarrow> Returned () (p\<lparr>available_connections := q\<rparr>, w))
        else Returned () (p, w))"



section \<open>The open-time configuration named by the specification\<close>

text \<open>
  The seven configuration steps of the specification, spelled out as the statements a
  connection receives: page cache size, temporary storage in memory, journal disabled,
  memory-map window of two gibibytes, synchronous writes disabled, the optimize hint,
  and the statistics refresh of the two primary tables (two statements).
\<close>

definition spec_open_time_configuration :: "string list" where
  "spec_open_time_configuration =
     [''PRAGMA cache_size = 2000000;'',
      ''PRAGMA temp_store = MEMORY;'',
      ''PRAGMA journal_mode = OFF;'',
      ''PRAGMA mmap_size = 2147483648;'',
      ''PRAGMA synchronous = OFF;'',
      ''PRAGMA optimize;'',
      ''ANALYZE embedding_metadata;'',
      ''ANALYZE embeddings;'']"

section \<open>Auxiliary notions for the proofs\<close>

text \<open>The engine after \<open>n\<close> connections were constructed one after the other.\<close>

fun conn_inits :: "nat \<Rightarrow> world \<Rightarrow> world" where
  "conn_inits 0 w = w"
| "conn_inits (Suc n) w = conn_inits n (snd (Connection_init w))"

text \<open>A bounded queue has room for \<open>n\<close> more items.\<close>

definition queue_room :: "nat \<Rightarrow> queue \<Rightarrow> bool" where
  "queue_room n q = (q_maxsize q \<le> 0 \<or> int (length (q_items q)) + int n \<le> q_maxsize q)"

text \<open>The reusable pool of a given capacity right after its construction, on a fresh engine.\<close>

definition rc_start :: "int \<Rightarrow> ReusableConnectionPool \<times> world" where
  "rc_start k =
     state_after (ReusableConnectionPool_init k fresh_world)
       (ReusableConnectionPool_new k, fresh_world)"

section \<open>Facts about the engine\<close>

lemma str_nat_mmap_size: "str_nat mmap_size = ''2147483648''"
  unfolding mmap_size_def by (simp add: str_nat.simps digit_char_def)

lemma close_each_open: "open_conns (close_each hs w) = open_conns w - set hs"
  unfolding close_each_def
  by (induction hs arbitrary: w) (auto simp: close_actual_def)

lemma close_each_next: "next_conn (close_each hs w) = next_conn w"
  unfolding close_each_def
  by (induction hs arbitrary: w) (auto simp: close_actual_def)

lemma close_each_executed: "executed (close_each hs w) = executed w"
  unfolding close_each_def
  by (induction hs arbitrary: w) (auto simp: close_actual_def)

lemma close_each_set:
  "close_each hs w = w\<lparr>open_conns := open_conns w - set hs\<rparr>"
  by (rule world.equality) (simp_all add: close_each_open close_each_next close_each_executed)

lemma close_all_eq:
  "finite S \<Longrightarrow> close_all S w = w\<lparr>open_conns := open_conns w - S\<rparr>"
  by (simp add: close_all_def close_each_set)

lemma Connection_init_handle: "fst (Connection_init w) = next_conn w"
  by (simp add: Connection_init_def sqlite3_connect_def Let_def)

lemma Connection_init_next: "next_conn (snd (Connection_init w)) = Suc (next_conn w)"
  by (simp add: Connection_init_def sqlite3_connect_def conn_execute_def Let_def)

lemma Connection_init_open:
  "open_conns (snd (Connection_init w)) = insert (next_conn w) (open_conns w)"
  by (simp add: Connection_init_def sqlite3_connect_def conn_execute_def Let_def)

lemma Connection_init_executed:
  "executed (snd (Connection_init w)) =
     (executed w)(next_conn w :=
        [''PRAGMA cache_size = 2000000;'',
         ''PRAGMA temp_store = MEMORY;'',
         ''PRAGMA journal_mode = OFF;'',
         ''PRAGMA mmap_size = 2147483648;'',
         ''PRAGMA synchronous = OFF;'',
         ''PRAGMA optimize;'',
         ''ANALYZE embedding_metadata;'',
         ''ANALYZE embeddings;''])"
  by (simp add: Connection_init_def sqlite3_connect_def conn_execute_def Let_def
      str_nat_mmap_size)

lemma Connection_init_eq:
  "Connection_init w =
     (next_conn w,
      w\<lparr>next_conn := Suc (next_conn w),
        open_conns := insert (next_conn w) (open_conns w),
        executed := (executed w)(next_conn w := spec_open_time_configuration)\<rparr>)"
  by (simp add: Connection_init_def sqlite3_connect_def conn_execute_def Let_def
      str_nat_mmap_size spec_open_time_configuration_def)

lemma create_new_connection_eq:
  "create_new_connection (p, w) =
     (next_conn w,
      (p\<lparr>all_connections := insert (next_conn w) (all_connections p)\<rparr>,
       snd (Connection_init w)))"
  by (simp add: create_new_connection_def Connection_init_eq)

section \<open>Open-time configuration of every connection\<close>



section \<open>Construction of the reusable pool\<close>



lemma conn_inits_executed:
  "executed (conn_inits n w) h =
     (if next_conn w \<le> h \<and> h < next_conn w + n then spec_open_time_configuration
      else executed w h)"
  by (induction n arbitrary: w) (auto simp: Connection_init_eq)

lemma queue_put_room:
  "queue_room (Suc n) q \<Longrightarrow> queue_put x q = Some (q\<lparr>q_items := q_items q @ [x]\<rparr>)"
  by (auto simp: queue_room_def queue_put_def queue_full_def)

lemma queue_room_Suc:
  "queue_room (Suc n) q \<Longrightarrow> queue_room n (q\<lparr>q_items := q_items q @ [x]\<rparr>)"
  by (auto simp: queue_room_def)

lemma upt_shift: "a # [Suc a ..< Suc (a + n)] = [a ..< Suc (a + n)]"
  by (simp add: upt_conv_Cons)

lemma prefill_eq:
  "queue_room n (available_connections p) \<Longrightarrow>
   prefill n (p, w) =
     Returned ()
       (p\<lparr>all_connections := all_connections p \<union> {next_conn w ..< next_conn w + n},
          available_connections :=
            (available_connections p)
              \<lparr>q_items := q_items (available_connections p)
                            @ map Some [next_conn w ..< next_conn w + n]\<rparr>\<rparr>,
        conn_inits n w)"
proof (induction n arbitrary: p w)
  case 0
  then show ?case by simp
next
  case (Suc n)
  let ?c = "next_conn w"
  let ?w = "snd (Connection_init w)"
  let ?q = "(available_connections p)\<lparr>q_items := q_items (available_connections p) @ [Some ?c]\<rparr>"
  let ?p = "p\<lparr>all_connections := insert ?c (all_connections p), available_connections := ?q\<rparr>"
  have put: "queue_put (Some ?c) (available_connections p) = Some ?q"
    using Suc.prems by (rule queue_put_room)
  have room: "queue_room n (available_connections ?p)"
    using Suc.prems by (simp add: queue_room_Suc)
  have step: "prefill (Suc n) (p, w) = prefill n (?p, ?w)"
    by (simp add: create_new_connection_eq put)
  have nx: "next_conn ?w = Suc ?c"
    by (simp add: Connection_init_eq)
  have sets: "insert ?c (all_connections p) \<union> {Suc ?c ..< Suc ?c + n}
                = all_connections p \<union> {?c ..< ?c + Suc n}"
    by auto
  have lists: "(q_items (available_connections p) @ [Some ?c]) @ map Some [Suc ?c ..< Suc ?c + n]
                 = q_items (available_connections p) @ map Some [?c ..< ?c + Suc n]"
    by (simp add: upt_conv_Cons)
  show ?case
    unfolding step Suc.IH [OF room] nx
    using sets lists by simp
qed

lemma ReusableConnectionPool_init_eq:
  "ReusableConnectionPool_init k w =
     Returned ()
       (\<lparr>available_connections =
            \<lparr>q_items = map Some [next_conn w ..< next_conn w + nat k], q_maxsize = k\<rparr>,
         all_connections = {next_conn w ..< next_conn w + nat k},
         max_connections = k,
         initialized = True\<rparr>,
        conn_inits (nat k) w)"
proof -
  have "queue_room (nat k) (available_connections (ReusableConnectionPool_new k))"
    by (auto simp: queue_room_def ReusableConnectionPool_new_def queue_new_def)
  from prefill_eq [OF this, of w] show ?thesis
    by (simp add: ReusableConnectionPool_init_def ReusableConnectionPool_new_def queue_new_def)
qed



section \<open>Returning handles to the reusable pool\<close>

lemma rc_start_eq:
  "rc_start k =
     (\<lparr>available_connections = \<lparr>q_items = map Some [0 ..< nat k], q_maxsize = k\<rparr>,
       all_connections = {0 ..< nat k},
       max_connections = k,
       initialized = True\<rparr>,
      conn_inits (nat k) fresh_world)"
  by (simp add: rc_start_def ReusableConnectionPool_init_eq fresh_world_def)

lemma upt_0_1: "[0 ..< Suc 0] = [0]"
  by simp

lemma upt_0_2: "[0 ..< 2] = [0, Suc 0]"
  by (simp add: upt_conv_Cons)


text \<open>
  Claim C6. Returning a handle that is not in the registry of the reusable pool raises
  nothing and does not block; the call leaves the whole state as it was, so the queue of
  available handles keeps its contents and the registry does not grow.
\<close>

theorem return_unregistered_handle_is_dropped:
  "conn \<notin> all_connections p \<Longrightarrow>
   ReusableConnectionPool_return_to_pool conn (p, w) = Returned () (p, w)"
  by (simp add: ReusableConnectionPool_return_to_pool_def)

theorem return_unregistered_handle_is_dropped_witness:
  "7 \<notin> all_connections (fst (rc_start 2))
   \<and> ReusableConnectionPool_return_to_pool 7 (rc_start 2) = Returned () (rc_start 2)
   \<and> q_items (available_connections (fst (rc_start 2))) = [Some 0, Some 1]"
proof -
  have h: "7 \<notin> all_connections (fst (rc_start 2))"
    by (simp add: rc_start_eq)
  from return_unregistered_handle_is_dropped [OF h, of "snd (rc_start 2)"] h
  show ?thesis
    by (simp add: rc_start_eq upt_0_2)
qed





section \<open>LockPool: connect, release and use after close\<close>


lemma close_all_open: "open_conns (close_all S w) \<subseteq> open_conns w"
  by (auto simp: close_all_def close_each_open)

lemma release_ignoring_RuntimeError_eq:
  "release_ignoring_RuntimeError t (p, w) =
     Returned ()
       (if rl_owner (lp_lock p) \<noteq> Some t then p
        else if rl_count (lp_lock p) - 1 = 0
          then p\<lparr>lp_lock := \<lparr>rl_owner = None, rl_count = 0\<rparr>\<rparr>
          else p\<lparr>lp_lock := (lp_lock p)\<lparr>rl_count := rl_count (lp_lock p) - 1\<rparr>\<rparr>, w)"
  by (simp add: release_ignoring_RuntimeError_def rlock_release_def)

lemma LockPool_connect_Blocked_iff:
  "LockPool_connect u (p, w) = Blocked
     \<longleftrightarrow> rl_owner (lp_lock p) \<noteq> None \<and> rl_owner (lp_lock p) \<noteq> Some u"
  by (auto simp: LockPool_connect_def rlock_acquire_def Connection_init_eq split: option.splits)



lemma lp_after_connect:
  "lp_run [Connect 0] (LockPool_init, fresh_world) =
     (\<lparr>lp_connections = {0}, lp_lock = \<lparr>rl_owner = Some 0, rl_count = 1\<rparr>,
       lp_connection = (\<lambda>_. None)(0 := Some 0)\<rparr>,
      snd (Connection_init fresh_world))"
  by (simp add: lp_run_def LockPool_connect_def LockPool_init_def rlock_acquire_def
      rlock_new_def Connection_init_eq fresh_world_def)




text \<open>
  Claim C3. A release on the LockPool never raises and never blocks, whatever the state,
  the thread and the handle. A release by a thread that does not own the lock (no
  matching connect outstanding) leaves the state exactly as it was. No release turns a
  connect that would have returned into one that blocks. In particular, after one
  outstanding connect by a thread, two releases in a row by that thread both return, the
  second changes nothing, the lock is free, and the connect of every thread returns.
\<close>

theorem LockPool_release_tolerant:
  "(\<exists>s1. LockPool_return_to_pool t c (p, w) = Returned () s1)
   \<and> (rl_owner (lp_lock p) \<noteq> Some t
        \<longrightarrow> LockPool_return_to_pool t c (p, w) = Returned () (p, w))
   \<and> (\<forall>u. LockPool_connect u (p, w) \<noteq> Blocked
        \<longrightarrow> LockPool_connect u (state_after (LockPool_return_to_pool t c (p, w)) (p, w)) \<noteq> Blocked)
   \<and> (rl_owner (lp_lock p) = Some t \<and> rl_count (lp_lock p) = 1
        \<longrightarrow> (\<exists>s1. LockPool_return_to_pool t c (p, w) = Returned () s1
              \<and> LockPool_return_to_pool t c s1 = Returned () s1
              \<and> rl_owner (lp_lock (fst s1)) = None
              \<and> (\<forall>u. LockPool_connect u s1 \<noteq> Blocked)))"
proof -
  have a: "\<exists>s1. LockPool_return_to_pool t c (p, w) = Returned () s1"
    by (simp add: LockPool_return_to_pool_def release_ignoring_RuntimeError_eq)
  have b: "rl_owner (lp_lock p) \<noteq> Some t
             \<longrightarrow> LockPool_return_to_pool t c (p, w) = Returned () (p, w)"
    by (simp add: LockPool_return_to_pool_def release_ignoring_RuntimeError_eq)
  have c: "\<forall>u. LockPool_connect u (p, w) \<noteq> Blocked
        \<longrightarrow> LockPool_connect u (state_after (LockPool_return_to_pool t c (p, w)) (p, w)) \<noteq> Blocked"
    by (auto simp: LockPool_return_to_pool_def release_ignoring_RuntimeError_eq
        LockPool_connect_Blocked_iff)
  have d: "rl_owner (lp_lock p) = Some t \<and> rl_count (lp_lock p) = 1
        \<longrightarrow> (\<exists>s1. LockPool_return_to_pool t c (p, w) = Returned () s1
              \<and> LockPool_return_to_pool t c s1 = Returned () s1
              \<and> rl_owner (lp_lock (fst s1)) = None
              \<and> (\<forall>u. LockPool_connect u s1 \<noteq> Blocked))"
    by (simp add: LockPool_return_to_pool_def release_ignoring_RuntimeError_eq
        LockPool_connect_Blocked_iff)
  from a b c d show ?thesis by blast
qed

theorem LockPool_release_tolerant_witness:
  "rl_owner (lp_lock (fst (lp_run [Connect 0] (LockPool_init, fresh_world)))) = Some 0
   \<and> rl_count (lp_lock (fst (lp_run [Connect 0] (LockPool_init, fresh_world)))) = 1
   \<and> rl_owner (lp_lock (fst (lp_run [Connect 0] (LockPool_init, fresh_world)))) \<noteq> Some 3
   \<and> LockPool_connect 0 (lp_run [Connect 0] (LockPool_init, fresh_world)) \<noteq> Blocked
   \<and> LockPool_return_to_pool 3 0 (lp_run [Connect 0] (LockPool_init, fresh_world))
       = Returned () (lp_run [Connect 0] (LockPool_init, fresh_world))
   \<and> LockPool_connect 0 (lp_run [Connect 0, ReturnToPool 3 0] (LockPool_init, fresh_world)) \<noteq> Blocked
   \<and> (\<exists>s1. LockPool_return_to_pool 0 0 (lp_run [Connect 0] (LockPool_init, fresh_world)) = Returned () s1
         \<and> LockPool_return_to_pool 0 0 s1 = Returned () s1
         \<and> LockPool_connect 1 s1 \<noteq> Blocked)"
proof -
  let ?s = "lp_run [Connect 0] (LockPool_init, fresh_world)"
  have o: "rl_owner (lp_lock (fst ?s)) = Some 0" "rl_count (lp_lock (fst ?s)) = 1"
    "rl_owner (lp_lock (fst ?s)) \<noteq> Some 3"
    by (simp_all add: lp_after_connect)
  have nb: "LockPool_connect 0 ?s \<noteq> Blocked"
    by (simp add: lp_after_connect LockPool_connect_Blocked_iff)
  have run: "lp_run [Connect 0, ReturnToPool 3 0] (LockPool_init, fresh_world)
               = state_after (LockPool_return_to_pool 3 0 ?s) ?s"
    by (simp add: lp_run_def)
  from LockPool_release_tolerant [of 3 0 "fst ?s" "snd ?s"] o nb
  have u: "LockPool_return_to_pool 3 0 ?s = Returned () ?s"
    and v: "LockPool_connect 0 (state_after (LockPool_return_to_pool 3 0 ?s) ?s) \<noteq> Blocked"
    by auto
  from LockPool_release_tolerant [of 0 0 "fst ?s" "snd ?s"] o
  obtain s1 where "LockPool_return_to_pool 0 0 ?s = Returned () s1"
    "LockPool_return_to_pool 0 0 s1 = Returned () s1" "\<forall>u. LockPool_connect u s1 \<noteq> Blocked"
    by auto
  then have d: "\<exists>s1. LockPool_return_to_pool 0 0 ?s = Returned () s1
         \<and> LockPool_return_to_pool 0 0 s1 = Returned () s1
         \<and> LockPool_connect 1 s1 \<noteq> Blocked"
    by blast
  from o nb u v d show ?thesis
    unfolding run by simp
qed

section \<open>Use after close\<close>

lemma lp_after_connect_close:
  "lp_run [Connect 0, Close 0] (LockPool_init, fresh_world) =
     (\<lparr>lp_connections = {}, lp_lock = \<lparr>rl_owner = None, rl_count = 0\<rparr>,
       lp_connection = (\<lambda>_. None)\<rparr>,
      close_all {0} (snd (Connection_init fresh_world)))"
proof -
  have "lp_run [Connect 0, Close 0] (LockPool_init, fresh_world)
          = lp_call (Close 0) (lp_run [Connect 0] (LockPool_init, fresh_world))"
    by (simp add: lp_run_def)
  then show ?thesis
    unfolding lp_after_connect
    by (simp add: LockPool_close_def release_ignoring_RuntimeError_eq)
qed



end
